theory Spec2Isabelle
  imports Complex_Main "HOL-Library.Word" "HOL-Library.Multiset"
begin

section \<open>Values of the client\<close>

text \<open>
  The client is TypeScript. A string is a sequence of UTF-16 code units; \<open>js\<close> writes
  an ASCII literal as such a sequence. A \<open>number\<close> is a double; it is modelled as the
  real number it stands for (the client never makes a \<open>NaN\<close> or an infinity out of
  the finite numbers it receives).
\<close>

type_synonym js_string = "16 word list"

type_synonym number = real

definition js :: "string \<Rightarrow> js_string" where
  "js s = map of_char s"

text \<open>
  A value parsed from JSON. An object keeps its members in the order of the text; a
  repeated key is read at its last occurrence, as \<open>JSON.parse\<close> does.
\<close>

datatype json =
    JNull
  | JBool bool
  | JNumber number
  | JString js_string
  | JArray "json list"
  | JObject "(js_string \<times> json) list"

text \<open>
  What the client can throw: \<open>Error v\<close> is \<open>new Error(v)\<close>, whose message is \<open>v\<close>
  itself when \<open>v\<close> is a string; the other three are the built-in errors of the
  runtime.
\<close>

datatype js_error = Error json | RangeError | SyntaxError | TypeError

text \<open>
  Where the client makes a number out of digits (\<open>JSON.parse\<close> of a message,
  \<open>parseInt\<close> of an entry) the value of the digits is rounded to a double: to 53
  significant bits, to the nearest, a tie to the even one. \<open>bit_length\<close> is the
  number of bits of a natural number, and \<open>round_double\<close> the rounding of an integer,
  which is an integer again.
\<close>

fun bit_length :: "nat \<Rightarrow> nat" where
  "bit_length n = (if n = 0 then 0 else Suc (bit_length (n div 2)))"

declare bit_length.simps [simp del]

definition round_double :: "int \<Rightarrow> int" where
  "round_double n =
     (let a = nat \<bar>n\<bar>; k = bit_length a
      in if k \<le> 53 then n
         else
           (let e = k - 53; q = a div 2 ^ e; r = a mod 2 ^ e; h = 2 ^ (e - 1);
                m = (if r < h then q else if h < r then q + 1
                     else if even q then q else q + 1)
            in sgn n * int (m * 2 ^ e)))"

text \<open>
  A number that may be \<open>NaN\<close> or infinite: the result of \<open>parseInt\<close> and the limit
  of the form. \<open>to_Number\<close> is the number for an integer: the rounded integer, or
  an infinity when the rounding reaches \<open>2^1024\<close>.
\<close>

datatype js_number = Finite real | PositiveInfinity | NegativeInfinity | NaN

definition to_Number :: "int \<Rightarrow> js_number" where
  "to_Number n =
     (if 2 ^ 1024 \<le> \<bar>round_double n\<bar>
      then (if n < 0 then NegativeInfinity else PositiveInfinity)
      else Finite (of_int (round_double n)))"

section \<open>api.ts: the wire types\<close>

text \<open>
  \<open>TradeRecord\<close> and \<open>OhlcvRecord\<close> both start with \<open>ts_event_unix_ns\<close> and
  \<open>symbol\<close>; the two shared fields are a record of their own that both extend, so
  the field names stay the ones of the source.
\<close>

record event_fields =
  ts_event_unix_ns :: number
  symbol :: js_string

record trade_record = event_fields +
  price_i64 :: number
  size_u32 :: number

record ohlcv_record = event_fields +
  open_i64 :: number
  high_i64 :: number
  low_i64 :: number
  close_i64 :: number
  volume_u64 :: number

text \<open>
  \<open>LiveMessage\<close>, a union tagged by \<open>type\<close>. The arguments are the fields in the
  order of the declaration: \<open>trade\<close> has ts_event_unix_ns, symbol, price_i64,
  size_u32; \<open>ohlcv\<close> has ts_event_unix_ns, symbol, open_i64, high_i64, low_i64,
  close_i64, volume_u64; \<open>error\<close> has message; \<open>connected\<close> has symbols, schema.
\<close>

datatype live_message =
    MsgTrade number js_string number number
  | MsgOhlcv number js_string number number number number number
  | MsgError js_string
  | MsgConnected "js_string list" js_string

section \<open>LiveStream.tsx\<close>

datatype status = StatusConnecting | StatusConnected | StatusError

text \<open>The two pieces of component state, \<open>status\<close> and \<open>messageCount\<close>.\<close>

record live_stream =
  status :: status
  messageCount :: nat

text \<open>
  What a handler does besides updating the component state, in the order it does it:
  a call of the \<open>onTrade\<close> or \<open>onDisconnect\<close> prop, a line on the console (the
  error message of the server, an error event, the close, a text that does not parse),
  or closing the socket.
\<close>

datatype effect =
    OnTrade trade_record
  | OnDisconnect
  | ConsoleErrorMessage js_string
  | ConsoleErrorEvent
  | ConsoleLogClosed
  | ConsoleErrorParse
  | WsClose

text \<open>The start of the effect: \<open>setStatus('connecting'); setMessageCount(0)\<close>.\<close>

definition mount :: live_stream where
  "mount = \<lparr>status = StatusConnecting, messageCount = 0\<rparr>"

fun handleMessage :: "live_message \<Rightarrow> live_stream \<Rightarrow> live_stream \<times> effect list" where
  "handleMessage (MsgConnected sys sch) s = (s\<lparr>status := StatusConnected\<rparr>, [])"
| "handleMessage (MsgTrade ts sy pr sz) s =
     (s\<lparr>messageCount := messageCount s + 1\<rparr>,
      [OnTrade \<lparr>ts_event_unix_ns = ts, symbol = sy, price_i64 = pr, size_u32 = sz\<rparr>])"
| "handleMessage (MsgError message) s =
     (s\<lparr>status := StatusError\<rparr>, [ConsoleErrorMessage message])"
| "handleMessage (MsgOhlcv ts sy opn hi lo cl vol) s = (s, [])"

definition handleError :: "live_stream \<Rightarrow> live_stream \<times> effect list" where
  "handleError s = (s\<lparr>status := StatusError\<rparr>, [ConsoleErrorEvent])"

definition handleClose :: "live_stream \<Rightarrow> live_stream \<times> effect list" where
  "handleClose s = (s, [ConsoleLogClosed, OnDisconnect])"

text \<open>The cleanup of the effect: \<open>wsRef.current.close()\<close>.\<close>

definition cleanup :: "live_stream \<Rightarrow> live_stream \<times> effect list" where
  "cleanup s = (s, [WsClose])"

text \<open>
  \<open>connectLive\<close> wires the three handlers to the socket: a parsed message goes to
  \<open>handleMessage\<close>, an error event to \<open>handleError\<close>, the close event to
  \<open>handleClose\<close>.
\<close>

datatype ws_event = Message live_message | SocketError | SocketClose

fun dispatch :: "ws_event \<Rightarrow> live_stream \<Rightarrow> live_stream \<times> effect list" where
  "dispatch (Message m) s = handleMessage m s"
| "dispatch SocketError s = handleError s"
| "dispatch SocketClose s = handleClose s"

text \<open>A sequence of socket events, handled one after the other; the effects accumulate.\<close>

fun run :: "ws_event list \<Rightarrow> live_stream \<Rightarrow> live_stream \<times> effect list" where
  "run [] s = (s, [])"
| "run (e # es) s =
     (case dispatch e s of (s', out) \<Rightarrow>
        (case run es s' of (s'', out') \<Rightarrow> (s'', out @ out')))"

fun is_data :: "ws_event \<Rightarrow> bool" where
  "is_data (Message (MsgTrade ts sy pr sz)) = True"
| "is_data (Message (MsgOhlcv ts sy opn hi lo cl vol)) = True"
| "is_data e = False"

fun is_connected_ack :: "ws_event \<Rightarrow> bool" where
  "is_connected_ack (Message (MsgConnected sys sch)) = True"
| "is_connected_ack e = False"

text \<open>
  To compare what arrives with what is handed on: the fields of a trade message as a
  record, and the record of a call of \<open>onTrade\<close>.
\<close>

fun trade_of :: "ws_event \<Rightarrow> trade_record option" where
  "trade_of (Message (MsgTrade ts sy pr sz)) =
     Some \<lparr>ts_event_unix_ns = ts, symbol = sy, price_i64 = pr, size_u32 = sz\<rparr>"
| "trade_of e = None"

fun onTrade_call :: "effect \<Rightarrow> trade_record option" where
  "onTrade_call (OnTrade t) = Some t"
| "onTrade_call x = None"

section \<open>api.ts: connectLive\<close>

text \<open>
  Modelled from the spec: the message as the server writes it on the socket; the
  encoder is not among the sources. The spec gives a trade an \<open>event_time\<close> and a
  \<open>price\<close> of 64 bits, signed, and a \<open>size\<close> of 32 bits, unsigned (the client's
  field names say the same), and a bar five signed 64-bit fields and an unsigned 64-bit
  volume; the text of the message has them as decimal integers. The fields are in the
  order of \<open>LiveMessage\<close>.
\<close>

datatype wire_message =
    WireTrade "64 word" js_string "64 word" "32 word"
  | WireOhlcv "64 word" js_string "64 word" "64 word" "64 word" "64 word" "64 word"
  | WireError js_string
  | WireConnected "js_string list" js_string

text \<open>
  \<open>JSON.parse(event.data) as LiveMessage\<close>: every integer of the text becomes the
  double nearest to it; the strings are kept.
\<close>

fun JSON_parse :: "wire_message \<Rightarrow> live_message" where
  "JSON_parse (WireTrade ts sy pr sz) =
     MsgTrade (of_int (round_double (sint ts))) sy
       (of_int (round_double (sint pr))) (of_int (round_double (uint sz)))"
| "JSON_parse (WireOhlcv ts sy opn hi lo cl vol) =
     MsgOhlcv (of_int (round_double (sint ts))) sy
       (of_int (round_double (sint opn))) (of_int (round_double (sint hi)))
       (of_int (round_double (sint lo))) (of_int (round_double (sint cl)))
       (of_int (round_double (uint vol)))"
| "JSON_parse (WireError message) = MsgError message"
| "JSON_parse (WireConnected sys sch) = MsgConnected sys sch"

text \<open>
  \<open>ws.onmessage\<close>: the text is parsed and the message handed to \<open>onMessage\<close>, which
  is \<open>handleMessage\<close>; a text that does not parse (\<open>None\<close>) is logged and dropped.
\<close>

definition onmessage :: "wire_message option \<Rightarrow> live_stream \<Rightarrow> live_stream \<times> effect list" where
  "onmessage data s =
     (case data of
        None \<Rightarrow> (s, [ConsoleErrorParse])
      | Some w \<Rightarrow> handleMessage (JSON_parse w) s)"

section \<open>App.tsx: the buffer of live trades\<close>

text \<open>
  \<open>handleLiveTrade\<close> is the state update
  \<open>prev => [trade, ...prev].slice(0, 100)\<close> of \<open>liveTrades\<close>.
\<close>

definition handleLiveTrade :: "trade_record \<Rightarrow> trade_record list \<Rightarrow> trade_record list" where
  "handleLiveTrade trade prev = (let updated = trade # prev in take 100 updated)"

text \<open>The buffer after a sequence of trades, the first of the list arriving first.\<close>

fun liveTrades_after :: "trade_record list \<Rightarrow> trade_record list \<Rightarrow> trade_record list" where
  "liveTrades_after [] prev = prev"
| "liveTrades_after (t # ts) prev = liveTrades_after ts (handleLiveTrade t prev)"

section \<open>Strings: split, trim, parseInt\<close>

text \<open>
  \<open>String.prototype.split\<close> with a one-unit separator: the pieces between the
  separators, empty pieces included; the empty string gives one empty piece.
\<close>

fun js_split :: "16 word \<Rightarrow> js_string \<Rightarrow> js_string list" where
  "js_split sep [] = [[]]"
| "js_split sep (c # cs) =
     (if c = sep then [] # js_split sep cs
      else (case js_split sep cs of [] \<Rightarrow> [[c]] | w # ws \<Rightarrow> (c # w) # ws))"

text \<open>
  White space and line terminators of ECMAScript, all in the basic plane: TAB, LF, VT,
  FF, CR, SP, NBSP, U+1680, U+2000 to U+200A, U+2028, U+2029, U+202F, U+205F, U+3000
  and U+FEFF.
\<close>

definition isWhiteSpace :: "16 word \<Rightarrow> bool" where
  "isWhiteSpace c =
     (c = 0x09 \<or> c = 0x0A \<or> c = 0x0B \<or> c = 0x0C \<or> c = 0x0D \<or> c = 0x20 \<or> c = 0xA0 \<or>
      c = 0x1680 \<or> (0x2000 \<le> c \<and> c \<le> 0x200A) \<or> c = 0x2028 \<or> c = 0x2029 \<or>
      c = 0x202F \<or> c = 0x205F \<or> c = 0x3000 \<or> c = 0xFEFF)"

definition trimStart :: "js_string \<Rightarrow> js_string" where
  "trimStart s = dropWhile isWhiteSpace s"

definition trimEnd :: "js_string \<Rightarrow> js_string" where
  "trimEnd s = rev (dropWhile isWhiteSpace (rev s))"

text \<open>\<open>String.prototype.trim\<close>: white space removed at both ends.\<close>

definition trim :: "js_string \<Rightarrow> js_string" where
  "trim s = trimStart (trimEnd s)"

text \<open>The value of a digit in radix 10 or 16; \<open>None\<close> for any other code unit.\<close>

definition digit_value :: "nat \<Rightarrow> 16 word \<Rightarrow> nat option" where
  "digit_value radix c =
     (if 0x30 \<le> c \<and> c \<le> 0x39 then Some (unat c - 48)
      else if radix = 16 \<and> 0x61 \<le> c \<and> c \<le> 0x66 then Some (unat c - 87)
      else if radix = 16 \<and> 0x41 \<le> c \<and> c \<le> 0x46 then Some (unat c - 55)
      else None)"

text \<open>The number written by the longest prefix of digits, most significant first.\<close>

fun digits_value :: "nat \<Rightarrow> nat \<Rightarrow> js_string \<Rightarrow> nat" where
  "digits_value radix acc [] = acc"
| "digits_value radix acc (c # cs) =
     (case digit_value radix c of
        None \<Rightarrow> acc
      | Some d \<Rightarrow> digits_value radix (acc * radix + d) cs)"

text \<open>
  \<open>parseInt(string)\<close> with no radix argument: leading white space is skipped, then
  an optional sign, then an optional \<open>0x\<close> or \<open>0X\<close> that selects radix 16, then
  the longest run of digits (\<open>integer_of_digits\<close>). No digit at all gives \<open>NaN\<close>;
  otherwise the result is the number for the signed value of the digits, rounded as a
  double is and infinite for a value too large. Minus zero is zero.
\<close>

definition integer_of_digits :: "int \<Rightarrow> nat \<Rightarrow> js_string \<Rightarrow> js_number" where
  "integer_of_digits sign radix z =
     (case z of
        [] \<Rightarrow> NaN
      | c # cs \<Rightarrow>
          (case digit_value radix c of
             None \<Rightarrow> NaN
           | Some d \<Rightarrow> to_Number (sign * int (digits_value radix 0 z))))"

definition parseInt :: "js_string \<Rightarrow> js_number" where
  "parseInt string =
     (let s = trimStart string;
          sign = (if s \<noteq> [] \<and> hd s = 0x2D then - 1 else 1 :: int);
          s1 = (if s \<noteq> [] \<and> (hd s = 0x2B \<or> hd s = 0x2D) then tl s else s);
          hex = (case s1 of a # b # rest \<Rightarrow> a = 0x30 \<and> (b = 0x78 \<or> b = 0x58) | _ \<Rightarrow> False);
          radix = (if hex then 16 else 10 :: nat);
          s2 = (if hex then drop 2 s1 else s1)
      in integer_of_digits sign radix s2)"

section \<open>SymbolForm.tsx\<close>

datatype schema = Trades | Ohlcv1s | Ohlcv1m

text \<open>\<open>HistoricalRequest\<close> of api.ts; an optional field is an option.\<close>

record historical_request =
  symbols :: "js_string list"
  schema :: schema
  stype_in :: "js_string option"
  start_rfc3339 :: js_string
  end_rfc3339 :: js_string
  limit :: "js_number option"

text \<open>
  The state of the form: the variables \<open>symbols\<close>, \<open>schema\<close>, \<open>startTime\<close>,
  \<open>endTime\<close> and \<open>limit\<close> of the component, prefixed here because the request has
  fields of the same names. \<open>limit\<close> holds 100 or a result of \<open>parseInt\<close>.
\<close>

record symbol_form =
  f_symbols :: js_string
  f_schema :: schema
  f_startTime :: js_string
  f_endTime :: js_string
  f_limit :: js_number

text \<open>
  The first render: \<open>useState('ES.FUT')\<close>, \<open>useState('trades')\<close>, the default time
  range (computed from the clock, so given here) and \<open>useState(100)\<close>.
\<close>

definition initial_form :: "js_string \<Rightarrow> js_string \<Rightarrow> symbol_form" where
  "initial_form start_default end_default =
     \<lparr>f_symbols = js ''ES.FUT'', f_schema = Trades, f_startTime = start_default,
      f_endTime = end_default, f_limit = Finite 100\<rparr>"

text \<open>
  The change handler of the limit input, \<open>setLimit(parseInt(e.target.value) || 100)\<close>:
  \<open>||\<close> takes its right operand when the left one is \<open>NaN\<close> or zero.
\<close>

definition limit_onChange :: "js_string \<Rightarrow> symbol_form \<Rightarrow> symbol_form" where
  "limit_onChange v f =
     f\<lparr>f_limit := (let n = parseInt v in if n = NaN \<or> n = Finite 0 then Finite 100 else n)\<rparr>"

text \<open>
  An edit of the form: the field and the value of the change event. The four other
  fields store the value as it is.
\<close>

datatype form_edit =
    EditSymbols js_string
  | EditSchema schema
  | EditStartTime js_string
  | EditEndTime js_string
  | EditLimit js_string

fun onChange :: "form_edit \<Rightarrow> symbol_form \<Rightarrow> symbol_form" where
  "onChange (EditSymbols v) f = f\<lparr>f_symbols := v\<rparr>"
| "onChange (EditSchema v) f = f\<lparr>f_schema := v\<rparr>"
| "onChange (EditStartTime v) f = f\<lparr>f_startTime := v\<rparr>"
| "onChange (EditEndTime v) f = f\<lparr>f_endTime := v\<rparr>"
| "onChange (EditLimit v) f = limit_onChange v f"


text \<open>
  \<open>handleFetchHistorical\<close>, the submit handler. \<open>toISOString\<close> stands for
  \<open>new Date(x).toISOString()\<close>, which throws a \<open>RangeError\<close> on a text that is not a
  date (\<open>None\<close>). The result is the error thrown, or \<open>None\<close> when the handler returns
  without calling \<open>onFetchHistorical\<close>, or the request it calls it with.
\<close>

definition symbolList :: "js_string \<Rightarrow> js_string list" where
  "symbolList text = filter (\<lambda>s. length s > 0) (map trim (js_split 0x2C text))"

definition handleFetchHistorical ::
  "(js_string \<Rightarrow> js_string option) \<Rightarrow> symbol_form \<Rightarrow> js_error + historical_request option" where
  "handleFetchHistorical toISOString f =
     (if length (symbolList (f_symbols f)) = 0 then Inr None
      else
        (case toISOString (f_startTime f) of
           None \<Rightarrow> Inl RangeError
         | Some startRfc3339 \<Rightarrow>
             (case toISOString (f_endTime f) of
                None \<Rightarrow> Inl RangeError
              | Some endRfc3339 \<Rightarrow>
                  Inr (Some \<lparr>symbols = symbolList (f_symbols f), schema = f_schema f,
                             stype_in = None, start_rfc3339 = startRfc3339,
                             end_rfc3339 = endRfc3339, limit = Some (f_limit f)\<rparr>))))"

text \<open>
  The form is \<open><form onSubmit={handleFetchHistorical}>\<close> with no \<open>noValidate\<close>, and
  the limit input is \<open><input type="number" min={1} max={10000} value={limit}>\<close>: the
  input shows the limit state, and when the form is submitted the browser checks the
  field against \<open>min\<close> and \<open>max\<close> first; out of range, it shows a message and does
  not fire the submit event, so the handler does not run and no request is sent.
\<close>

definition limit_in_range :: "js_number \<Rightarrow> bool" where
  "limit_in_range v = (case v of Finite x \<Rightarrow> 1 \<le> x \<and> x \<le> 10000 | _ \<Rightarrow> False)"

definition submit ::
  "(js_string \<Rightarrow> js_string option) \<Rightarrow> symbol_form \<Rightarrow> js_error + historical_request option" where
  "submit toISOString f =
     (if limit_in_range (f_limit f) then handleFetchHistorical toISOString f else Inr None)"

text \<open>
  One date conversion for the examples: in a browser whose time zone is UTC a
  \<open>datetime-local\<close> value \<open>YYYY-MM-DDTHH:mm\<close> becomes \<open>YYYY-MM-DDTHH:mm:00.000Z\<close>;
  a text of another length is taken as not a date.
\<close>

definition utc_toISOString :: "js_string \<Rightarrow> js_string option" where
  "utc_toISOString x = (if length x = 16 then Some (x @ js '':00.000Z'') else None)"

section \<open>api.ts: fetchHistorical\<close>

text \<open>
  The member access \<open>v.error\<close>: a \<open>TypeError\<close> on \<open>null\<close>, the member of an object
  (\<open>None\<close> is \<open>undefined\<close>), and \<open>undefined\<close> on a boolean, number, string or
  array, none of which has a property of that name.
\<close>

fun member_error :: "json \<Rightarrow> js_error + json option" where
  "member_error JNull = Inl TypeError"
| "member_error (JObject members) = Inr (map_of (rev members) (js ''error''))"
| "member_error v = Inr None"

fun truthy :: "json \<Rightarrow> bool" where
  "truthy JNull = False"
| "truthy (JBool b) = b"
| "truthy (JNumber n) = (n \<noteq> 0)"
| "truthy (JString s) = (s \<noteq> [])"
| "truthy (JArray xs) = True"
| "truthy (JObject members) = True"

text \<open>The operator \<open>||\<close> with a left operand that may be \<open>undefined\<close>.\<close>

definition logical_or :: "json option \<Rightarrow> json \<Rightarrow> json" where
  "logical_or l r = (case l of None \<Rightarrow> r | Some v \<Rightarrow> if truthy v then v else r)"

text \<open>
  The HTTP response as the client reads it: \<open>ok\<close> is true for a 2xx status, and
  \<open>body\<close> is what \<open>response.json()\<close> resolves to, \<open>None\<close> when the body is not JSON
  and the promise rejects with a \<open>SyntaxError\<close>.
\<close>

record response =
  ok :: bool
  body :: "json option"

text \<open>What \<open>await fetch(...)\<close> gives: a rejection (no response at all) or a response.\<close>

datatype fetch_outcome = NetworkFailure | Responded response

definition default_message :: js_string where
  "default_message = js ''Failed to fetch historical data''"

text \<open>
  \<open>fetchHistorical\<close>, given the request and the outcome of the \<open>fetch\<close> that posts
  it. \<open>Inl\<close> is the error the promise rejects with, \<open>Inr\<close> the value it resolves to.
\<close>

definition fetchHistorical :: "historical_request \<Rightarrow> fetch_outcome \<Rightarrow> js_error + json" where
  "fetchHistorical request outcome =
     (case outcome of
        NetworkFailure \<Rightarrow> Inl TypeError
      | Responded response \<Rightarrow>
          if \<not> ok response then
            (case body response of
               None \<Rightarrow> Inl SyntaxError
             | Some error \<Rightarrow>
                 (case member_error error of
                    Inl e \<Rightarrow> Inl e
                  | Inr v \<Rightarrow> Inl (Error (logical_or v (JString default_message)))))
          else
            (case body response of
               None \<Rightarrow> Inl SyntaxError
             | Some data \<Rightarrow> Inr data))"

section \<open>api.ts: prices\<close>

text \<open>
  The result of an arithmetic operation on doubles is the exact result rounded to a
  double. The rounding is a parameter, \<open>rnd\<close>, of every function that divides or
  subtracts; what is proved of such a function holds for every rounding, or says which
  property of the rounding it needs.
\<close>

definition PRICE_SCALE :: number where
  "PRICE_SCALE = 1000000000"

definition formatPriceNumber :: "(real \<Rightarrow> real) \<Rightarrow> number \<Rightarrow> number" where
  "formatPriceNumber rnd priceI64 = rnd (priceI64 / PRICE_SCALE)"

text \<open>The code unit of a decimal digit, and the decimal digits of a natural number.\<close>

definition digit :: "nat \<Rightarrow> 16 word" where
  "digit d = of_nat (48 + d)"

fun digits :: "nat \<Rightarrow> js_string" where
  "digits n = (if n < 10 then [digit n] else digits (n div 10) @ [digit (n mod 10)])"

declare digits.simps [simp del]

text \<open>
  \<open>Number.prototype.toFixed(fractionDigits)\<close> on a finite number, as ECMAScript
  defines it on the exact value \<open>x\<close> of the number: the sign, then, for a magnitude
  below \<open>10^21\<close>, the integer \<open>n\<close> for which \<open>n / 10^f\<close> is nearest to the magnitude
  (the larger one of two), written in decimal, padded with zeros on the left to
  \<open>f + 1\<close> digits, with a point before the last \<open>f\<close> digits. From \<open>10^21\<close> on the
  result is the \<open>ToString\<close> of the number, which is a parameter. The client calls it
  with 2 only (the runtime refuses more than 100 fraction digits).
\<close>

definition toFixed :: "(number \<Rightarrow> js_string) \<Rightarrow> number \<Rightarrow> nat \<Rightarrow> js_string" where
  "toFixed toString x0 f =
     (let s = (if x0 < 0 then js ''-'' else []);
          x = (if x0 < 0 then - x0 else x0)
      in if 10 ^ 21 \<le> x then s @ toString x
         else
           (let n = nat \<lfloor>x * 10 ^ f + 1 / 2\<rfloor>;
                m = (if n = 0 then js ''0'' else digits n);
                m1 = (if length m \<le> f then replicate (f + 1 - length m) 0x30 @ m else m);
                k = length m1
            in if f \<noteq> 0 then s @ take (k - f) m1 @ js ''.'' @ drop (k - f) m1
               else s @ m))"

definition formatPrice :: "(real \<Rightarrow> real) \<Rightarrow> (number \<Rightarrow> js_string) \<Rightarrow> number \<Rightarrow> js_string" where
  "formatPrice rnd toString priceI64 = toFixed toString (rnd (priceI64 / PRICE_SCALE)) 2"

section \<open>TradeTape.tsx\<close>

text \<open>The price cell of a row of the tape, \<open>formatPrice(trade.price_i64)\<close>.\<close>

definition TradeRow_price ::
  "(real \<Rightarrow> real) \<Rightarrow> (number \<Rightarrow> js_string) \<Rightarrow> trade_record \<Rightarrow> js_string" where
  "TradeRow_price rnd toString trade = formatPrice rnd toString (price_i64 trade)"

section \<open>HistoricalChart.tsx\<close>

text \<open>
  An element of the series data, \<open>{time, open, high, low, close}\<close>; the fields are
  prefixed because \<open>open\<close> is a constant of the library.
\<close>

record candle =
  bar_time :: number
  bar_open :: number
  bar_high :: number
  bar_low :: number
  bar_close :: number

definition to_candle :: "(real \<Rightarrow> real) \<Rightarrow> ohlcv_record \<Rightarrow> candle" where
  "to_candle rnd bar =
     \<lparr>bar_time = rnd (ts_event_unix_ns bar / 1000000000),
      bar_open = formatPriceNumber rnd (open_i64 bar),
      bar_high = formatPriceNumber rnd (high_i64 bar),
      bar_low = formatPriceNumber rnd (low_i64 bar),
      bar_close = formatPriceNumber rnd (close_i64 bar)\<rparr>"

text \<open>
  \<open>Array.prototype.sort\<close> with a comparison function: a stable sort, written as
  insertion from the right. An element goes before the first one it does not compare
  greater than, so elements that compare equal keep their order.
\<close>

fun insert_by :: "('a \<Rightarrow> 'a \<Rightarrow> number) \<Rightarrow> 'a \<Rightarrow> 'a list \<Rightarrow> 'a list" where
  "insert_by cmp x [] = [x]"
| "insert_by cmp x (y # ys) = (if cmp x y \<le> 0 then x # y # ys else y # insert_by cmp x ys)"

definition array_sort :: "('a \<Rightarrow> 'a \<Rightarrow> number) \<Rightarrow> 'a list \<Rightarrow> 'a list" where
  "array_sort cmp xs = foldr (insert_by cmp) xs []"

text \<open>The comparison function, \<open>(a, b) => a.time - b.time\<close>.\<close>

definition by_time :: "(real \<Rightarrow> real) \<Rightarrow> candle \<Rightarrow> candle \<Rightarrow> number" where
  "by_time rnd a b = rnd (bar_time a - bar_time b)"

definition chartData :: "(real \<Rightarrow> real) \<Rightarrow> ohlcv_record list \<Rightarrow> candle list" where
  "chartData rnd data = array_sort (by_time rnd) (map (to_candle rnd) data)"

text \<open>
  The effect of the component: nothing when the container is not mounted or the data
  is empty, otherwise \<open>candlestickSeries.setData(chartData)\<close>; the result is the
  argument of \<open>setData\<close>.
\<close>

definition HistoricalChart ::
  "(real \<Rightarrow> real) \<Rightarrow> bool \<Rightarrow> ohlcv_record list \<Rightarrow> candle list option" where
  "HistoricalChart rnd container data =
     (if \<not> container \<or> length data = 0 then None else Some (chartData rnd data))"

text \<open>
  The one property of the rounding that the order of the chart needs: the difference
  of two doubles, rounded, has the sign of the exact difference. It holds of the
  doubles, since two different doubles differ by at least the least positive double
  and their difference does not round to zero; and it holds when nothing is rounded.
\<close>

definition sign_exact :: "(real \<Rightarrow> real) \<Rightarrow> bool" where
  "sign_exact rnd = (\<forall>x y. (rnd (rnd x - rnd y) \<le> 0) = (rnd x \<le> rnd y))"

section \<open>Properties of the rounding\<close>

text \<open>
  A number below \<open>2^k\<close> has at most \<open>k\<close> bits. An integer of magnitude up to
  \<open>2^53\<close> is a double, so rounding leaves it as it is; the rounding of an integer
  from \<open>2^1024\<close> on is not below \<open>2^1024\<close>.
\<close>

lemma bit_length_le: "n < 2 ^ k \<Longrightarrow> bit_length n \<le> k"
proof (induction k arbitrary: n)
  case 0
  then show ?case by (simp add: bit_length.simps)
next
  case (Suc k)
  show ?case
  proof (cases "n = 0")
    case True
    then show ?thesis by (simp add: bit_length.simps)
  next
    case False
    from Suc.prems have "n div 2 < 2 ^ k" by simp
    from Suc.IH[OF this] False show ?thesis by (subst bit_length.simps) simp
  qed
qed

lemma bit_length_gt: "2 ^ k \<le> n \<Longrightarrow> k < bit_length n"
proof (induction k arbitrary: n)
  case 0
  then show ?case by (subst bit_length.simps) simp
next
  case (Suc k)
  then have half: "2 ^ k \<le> n div 2" by simp
  have "n \<noteq> 0"
  proof
    assume "n = 0"
    with Suc.prems show False by simp
  qed
  with Suc.IH[OF half] show ?case by (subst bit_length.simps) simp
qed

lemma bit_length_eq: "2 ^ k \<le> n \<Longrightarrow> n < 2 ^ Suc k \<Longrightarrow> bit_length n = Suc k"
  using bit_length_le[of n "Suc k"] bit_length_gt[of k n] by simp

lemma round_double_small: "\<bar>n\<bar> < 2 ^ 53 \<Longrightarrow> round_double n = n"
proof -
  assume "\<bar>n\<bar> < 2 ^ 53"
  then have "nat \<bar>n\<bar> < 2 ^ 53" by (simp add: nat_less_iff)
  then have "bit_length (nat \<bar>n\<bar>) \<le> 53" by (rule bit_length_le)
  then show ?thesis by (simp add: round_double_def Let_def)
qed

lemma round_double_exact: "\<bar>n\<bar> \<le> 2 ^ 53 \<Longrightarrow> round_double n = n"
proof (cases "\<bar>n\<bar> < 2 ^ 53")
  case True
  then show ?thesis by (rule round_double_small)
next
  case False
  assume "\<bar>n\<bar> \<le> 2 ^ 53"
  with False have a: "\<bar>n\<bar> = 9007199254740992" by simp
  then have na: "nat \<bar>n\<bar> = 9007199254740992" by simp
  have k: "bit_length 9007199254740992 = 54"
    using bit_length_eq[of 53 9007199254740992] by simp
  have "sgn n * 9007199254740992 = n" using a by (cases "n < 0") (simp_all add: sgn_if)
  then show ?thesis
    by (simp add: round_double_def Let_def na k)
qed

lemma round_double_example: "round_double 1704067200123456789 = 1704067200123456768"
proof -
  have k: "bit_length 1704067200123456789 = 61"
    using bit_length_eq[of 60 1704067200123456789] by simp
  show ?thesis by (simp add: round_double_def Let_def k)
qed

lemma round_double_tie: "round_double 9007199254740993 = 9007199254740992"
proof -
  have k: "bit_length 9007199254740993 = 54"
    using bit_length_eq[of 53 9007199254740993] by simp
  show ?thesis by (simp add: round_double_def Let_def k)
qed

lemma round_double_large:
  assumes "2 ^ 1024 \<le> n"
  shows "2 ^ 1024 \<le> round_double n"
proof -
  define a where "a = nat \<bar>n\<bar>"
  define k where "k = bit_length a"
  have "(0::int) < 2 ^ 1024" by simp
  with assms have npos: "0 < n" by linarith
  have "int ((2::nat) ^ 1024) \<le> int a" using assms npos by (simp add: a_def)
  then have a: "2 ^ 1024 \<le> a" by (simp only: of_nat_le_iff)
  then have k1024: "1024 < k" unfolding k_def by (rule bit_length_gt)
  then have k53: "\<not> k \<le> 53" by simp
  define e where "e = k - 53"
  define q where "q = a div 2 ^ e"
  define m where "m = (if a mod 2 ^ e < 2 ^ (e - 1) then q else if 2 ^ (e - 1) < a mod 2 ^ e then q + 1
                     else if even q then q else q + 1)"
  have rd: "round_double n = sgn n * int (m * 2 ^ e)"
    using k53 by (simp add: round_double_def Let_def a_def[symmetric] k_def[symmetric]
        e_def[symmetric] q_def[symmetric] m_def)
  have "\<not> a < 2 ^ (k - 1)"
  proof
    assume "a < 2 ^ (k - 1)"
    then have "bit_length a \<le> k - 1" by (rule bit_length_le)
    with k1024 show False by (simp add: k_def)
  qed
  then have lo: "2 ^ (k - 1) \<le> a" by simp
  define c :: nat where "c = 2 ^ 52"
  have ke: "k - 1 = 52 + e" using k1024 by (simp add: e_def)
  have pk: "(2::nat) ^ (k - 1) = c * 2 ^ e" by (simp only: ke power_add c_def)
  from lo have "c * 2 ^ e \<le> a" by (simp only: pk)
  then have "c \<le> q" unfolding q_def by (simp add: less_eq_div_iff_mult_less_eq)
  moreover have "q \<le> m" by (simp add: m_def)
  ultimately have "c * 2 ^ e \<le> m * 2 ^ e" by simp
  then have big: "2 ^ (k - 1) \<le> m * 2 ^ e" by (simp only: pk)
  have "(2::nat) ^ 1024 \<le> 2 ^ (k - 1)" using k1024 by (intro power_increasing) simp_all
  with big have "(2::nat) ^ 1024 \<le> m * 2 ^ e" by (rule order_trans[rotated])
  then have "int ((2::nat) ^ 1024) \<le> int (m * 2 ^ e)" by (simp only: of_nat_le_iff)
  then have "(2::int) ^ 1024 \<le> int (m * 2 ^ e)" by simp
  with npos show ?thesis by (simp add: rd)
qed

section \<open>Properties of the live stream\<close>

lemma fst_run_Cons: "fst (run (e # es) s) = fst (run es (fst (dispatch e s)))"
  by (simp split: prod.splits)

lemma snd_run_Cons:
  "snd (run (e # es) s) = snd (dispatch e s) @ snd (run es (fst (dispatch e s)))"
  by (simp split: prod.splits)

text \<open>Only the acknowledgement sets the status to connected.\<close>

lemma dispatch_status_connected:
  "status (fst (dispatch e s)) = StatusConnected \<Longrightarrow>
   status s = StatusConnected \<or> is_connected_ack e"
  by (cases e rule: is_connected_ack.cases) (auto simp: handleError_def handleClose_def)

lemma run_status_connected:
  "status (fst (run es s)) = StatusConnected \<Longrightarrow>
   status s = StatusConnected \<or> (\<exists>e \<in> set es. is_connected_ack e)"
proof (induction es arbitrary: s)
  case Nil
  then show ?case by simp
next
  case (Cons e es)
  from Cons.prems have "status (fst (run es (fst (dispatch e s)))) = StatusConnected"
    by (simp only: fst_run_Cons)
  from Cons.IH[OF this] show ?case
    using dispatch_status_connected[of e s] by auto
qed

lemma is_connected_ack_iff:
  "is_connected_ack e \<longleftrightarrow> (\<exists>sys sch. e = Message (MsgConnected sys sch))"
  by (cases e rule: is_connected_ack.cases) simp_all

lemma data_keeps_status: "is_data e \<Longrightarrow> status (fst (dispatch e s)) = status s"
  by (cases e rule: is_data.cases) simp_all

lemma data_run_status: "list_all is_data es \<Longrightarrow> status (fst (run es s)) = status s"
proof (induction es arbitrary: s)
  case Nil
  then show ?case by simp
next
  case (Cons e es)
  then show ?case by (simp add: fst_run_Cons data_keeps_status del: run.simps)
qed

text \<open>
  No handler reads the status: started from another status, a handler has the same
  effects and leaves the same state up to the status.
\<close>

lemma handleMessage_status_irrelevant:
  "snd (handleMessage m (s\<lparr>status := st\<rparr>)) = snd (handleMessage m s) \<and>
   (\<exists>st'. fst (handleMessage m (s\<lparr>status := st\<rparr>)) = (fst (handleMessage m s))\<lparr>status := st'\<rparr>)"
  by (cases m) (auto intro: exI[of _ st])

lemma dispatch_status_irrelevant:
  "snd (dispatch e (s\<lparr>status := st\<rparr>)) = snd (dispatch e s) \<and>
   (\<exists>st'. fst (dispatch e (s\<lparr>status := st\<rparr>)) = (fst (dispatch e s))\<lparr>status := st'\<rparr>)"
proof (cases e)
  case (Message m)
  then show ?thesis
    using handleMessage_status_irrelevant[where m = m and s = s and st = st] by simp
next
  case SocketError
  then show ?thesis by (auto simp add: handleError_def intro: exI[of _ StatusError])
next
  case SocketClose
  then show ?thesis by (auto simp add: handleClose_def)
qed

lemma run_status_irrelevant:
  "snd (run es (s\<lparr>status := st\<rparr>)) = snd (run es s) \<and>
   messageCount (fst (run es (s\<lparr>status := st\<rparr>))) = messageCount (fst (run es s))"
proof (induction es arbitrary: s st)
  case Nil
  then show ?case by simp
next
  case (Cons e es)
  obtain st' where st':
    "fst (dispatch e (s\<lparr>status := st\<rparr>)) = (fst (dispatch e s))\<lparr>status := st'\<rparr>"
    using dispatch_status_irrelevant[where e = e and s = s and st = st] by blast
  have out: "snd (dispatch e (s\<lparr>status := st\<rparr>)) = snd (dispatch e s)"
    using dispatch_status_irrelevant[where e = e and s = s and st = st] by blast
  show ?case
    using Cons.IH[where s = "fst (dispatch e s)" and st = st']
    by (simp only: fst_run_Cons snd_run_Cons st' out)
qed

text \<open>
  The calls of \<open>onTrade\<close> during a sequence of events are the trade messages of the
  sequence, one call for each, in the order of arrival.
\<close>

lemma map_filter_append:
  "List.map_filter f (xs @ ys) = List.map_filter f xs @ List.map_filter f ys"
  by (simp add: List.map_filter_def)

lemma onTrade_calls_dispatch:
  "List.map_filter onTrade_call (snd (dispatch e s)) = List.map_filter trade_of [e]"
  by (cases e rule: trade_of.cases)
     (simp_all add: List.map_filter_def handleError_def handleClose_def)

lemma onTrade_calls_run:
  "List.map_filter onTrade_call (snd (run es s)) = List.map_filter trade_of es"
proof (induction es arbitrary: s)
  case Nil
  then show ?case by (simp add: List.map_filter_def)
next
  case (Cons e es)
  have "List.map_filter trade_of (e # es) =
          List.map_filter trade_of [e] @ List.map_filter trade_of es"
    using map_filter_append[of trade_of "[e]" es] by simp
  then show ?case
    by (simp only: snd_run_Cons map_filter_append onTrade_calls_dispatch Cons.IH)
qed

lemma uint32_exact: "round_double (uint (w :: 32 word)) = uint w"
proof -
  have "uint w < 2 ^ 32" using uint_bounded[of w] by simp
  moreover have "(2::int) ^ 32 < 2 ^ 53" by simp
  moreover have "0 \<le> uint w" by simp
  ultimately have "\<bar>uint w\<bar> < 2 ^ 53" by linarith
  then show ?thesis by (rule round_double_small)
qed

text \<open>
  C1, as stated, fails: the trade message whose text has the time stamp
  1704067200123456789 reaches \<open>onTrade\<close> with the time stamp 1704067200123456768,
  the double nearest to it.
\<close>

theorem timestamp_rounded_on_decode:
  "snd (onmessage (Some (WireTrade 1704067200123456789 (js ''ES.FUT'') 4500250000000 3)) mount) =
     [OnTrade \<lparr>ts_event_unix_ns = 1704067200123456768, symbol = js ''ES.FUT'',
               price_i64 = 4500250000000, size_u32 = 3\<rparr>]"
proof -
  have p: "round_double 4500250000000 = 4500250000000" by (rule round_double_small) simp
  have z: "round_double 3 = 3" by (rule round_double_small) simp
  show ?thesis
    by (simp add: onmessage_def round_double_example p z)
qed

text \<open>
  C1, amended. On a parsed message of type \<open>trade\<close> the handler calls \<open>onTrade\<close>
  once, with a record whose four fields are those of the message, unchanged, and over
  any sequence of events the records handed to \<open>onTrade\<close> are the trade messages
  received, in order. Decoded from the wire, a trade reaches \<open>onTrade\<close> with its
  symbol and its size as sent, and with its time stamp and its price rounded to the
  nearest double: as sent whenever they are at most \<open>2^53\<close> in magnitude.
\<close>

theorem trade_message_forwarded:
  "snd (handleMessage (MsgTrade ts sy pr sz) s) =
     [OnTrade \<lparr>ts_event_unix_ns = ts, symbol = sy, price_i64 = pr, size_u32 = sz\<rparr>] \<and>
   List.map_filter onTrade_call (snd (run es s)) = List.map_filter trade_of es \<and>
   snd (onmessage (Some (WireTrade wts wsy wpr wsz)) s) =
     [OnTrade \<lparr>ts_event_unix_ns = of_int (round_double (sint wts)), symbol = wsy,
               price_i64 = of_int (round_double (sint wpr)), size_u32 = of_int (uint wsz)\<rparr>] \<and>
   (\<bar>sint wts\<bar> \<le> 2 ^ 53 \<longrightarrow> round_double (sint wts) = sint wts) \<and>
   (\<bar>sint wpr\<bar> \<le> 2 ^ 53 \<longrightarrow> round_double (sint wpr) = sint wpr)"
  by (simp add: onTrade_calls_run onmessage_def uint32_exact round_double_exact)

theorem trade_message_forwarded_witness:
  "\<bar>sint (1704067200000 :: 64 word)\<bar> \<le> 2 ^ 53 \<and>
   \<bar>sint (4500250000000 :: 64 word)\<bar> \<le> 2 ^ 53 \<and>
   snd (onmessage (Some (WireTrade 1704067200000 (js ''ES.FUT'') 4500250000000 3)) mount) =
     [OnTrade \<lparr>ts_event_unix_ns = 1704067200000, symbol = js ''ES.FUT'',
               price_i64 = 4500250000000, size_u32 = 3\<rparr>]"
  using trade_message_forwarded[where wts = 1704067200000 and wsy = "js ''ES.FUT''"
      and wpr = 4500250000000 and wsz = 3 and s = mount]
  by simp

text \<open>
  C3. After any sequence of socket events the status is connected only if a message of
  type \<open>connected\<close> is among the events handled; a \<open>trade\<close> message leaves the status
  as it is; and a sequence of data messages only (trades and bars) leaves the client
  connecting.
\<close>

theorem connected_only_after_ack:
  "(status (fst (run es mount)) = StatusConnected \<longrightarrow>
      (\<exists>sys sch. Message (MsgConnected sys sch) \<in> set es)) \<and>
   status (fst (handleMessage (MsgTrade ts sy pr sz) s)) = status s \<and>
   (list_all is_data es \<longrightarrow> status (fst (run es mount)) = StatusConnecting)"
proof (intro conjI impI)
  assume "status (fst (run es mount)) = StatusConnected"
  from run_status_connected[OF this]
  have "\<exists>e \<in> set es. is_connected_ack e" by (simp add: mount_def)
  then show "\<exists>sys sch. Message (MsgConnected sys sch) \<in> set es"
    by (auto simp: is_connected_ack_iff)
next
  show "status (fst (handleMessage (MsgTrade ts sy pr sz) s)) = status s" by simp
next
  assume "list_all is_data es"
  then show "status (fst (run es mount)) = StatusConnecting"
    by (simp add: data_run_status mount_def)
qed

theorem connected_only_after_ack_witness:
  "status (fst (run [Message (MsgConnected [js ''ES.FUT''] (js ''trades'')),
                     Message (MsgTrade 1000 (js ''ES.FUT'') 4500 2)] mount)) = StatusConnected \<and>
   (\<exists>sys sch. Message (MsgConnected sys sch)
        \<in> set [Message (MsgConnected [js ''ES.FUT''] (js ''trades'')),
               Message (MsgTrade 1000 (js ''ES.FUT'') 4500 2)]) \<and>
   list_all is_data [Message (MsgTrade 1000 (js ''ES.FUT'') 4500 2),
                     Message (MsgOhlcv 1000 (js ''ES.FUT'') 1 2 0 1 9)] \<and>
   status (fst (run [Message (MsgTrade 1000 (js ''ES.FUT'') 4500 2),
                     Message (MsgOhlcv 1000 (js ''ES.FUT'') 1 2 0 1 9)] mount)) = StatusConnecting"
  using connected_only_after_ack
          [of "[Message (MsgConnected [js ''ES.FUT''] (js ''trades'')),
                Message (MsgTrade 1000 (js ''ES.FUT'') 4500 2)]"]
        connected_only_after_ack
          [of "[Message (MsgTrade 1000 (js ''ES.FUT'') 4500 2),
                Message (MsgOhlcv 1000 (js ''ES.FUT'') 1 2 0 1 9)]"]
  by (simp add: mount_def)

text \<open>
  C4. On a message of type \<open>error\<close> the handler sets the status to error and logs the
  message; it neither closes the socket nor calls \<open>onDisconnect\<close>. Whatever events
  follow are handled as they would have been without the error message: the same
  effects, hence the same calls of \<open>onTrade\<close>, and the same message count; and a later
  \<open>connected\<close> message sets the status to connected again.
\<close>

theorem error_message_keeps_stream:
  "handleMessage (MsgError message) s =
     (s\<lparr>status := StatusError\<rparr>, [ConsoleErrorMessage message]) \<and>
   WsClose \<notin> set (snd (handleMessage (MsgError message) s)) \<and>
   OnDisconnect \<notin> set (snd (handleMessage (MsgError message) s)) \<and>
   snd (run (Message (MsgError message) # es) s) =
     ConsoleErrorMessage message # snd (run es s) \<and>
   messageCount (fst (run (Message (MsgError message) # es) s)) =
     messageCount (fst (run es s)) \<and>
   status (fst (handleMessage (MsgConnected sys sch) (fst (handleMessage (MsgError message) s))))
     = StatusConnected"
  using run_status_irrelevant[where es = es and s = s and st = StatusError]
  by (simp add: fst_run_Cons snd_run_Cons del: run.simps)

text \<open>
  C9. On a message of type \<open>ohlcv\<close> the handler does nothing: the state (status and
  message count) is unchanged and there is no effect, so no call of \<open>onTrade\<close>.
\<close>

theorem ohlcv_message_ignored:
  "handleMessage (MsgOhlcv ts sy opn hi lo cl vol) s = (s, [])"
  by simp

section \<open>Properties of the buffer of live trades\<close>

lemma handleLiveTrade_Cons: "handleLiveTrade t prev = t # take 99 prev"
  by (simp add: handleLiveTrade_def take_Cons')

lemma take_append_take: "take n (xs @ take n ys) = take n (xs @ ys)"
  by (simp add: min_def)

lemma liveTrades_after_take:
  "length prev \<le> 100 \<Longrightarrow> liveTrades_after ts prev = take 100 (rev ts @ prev)"
proof (induction ts arbitrary: prev)
  case Nil
  then show ?case by simp
next
  case (Cons t ts)
  have "liveTrades_after (t # ts) prev = liveTrades_after ts (take 100 (t # prev))"
    by (simp add: handleLiveTrade_def)
  also have "\<dots> = take 100 (rev ts @ take 100 (t # prev))"
    by (rule Cons.IH) simp
  also have "\<dots> = take 100 (rev ts @ t # prev)"
    by (rule take_append_take)
  finally show ?case by simp
qed

text \<open>
  C10. After a call of \<open>handleLiveTrade\<close> the list has at most 100 records and starts
  with the trade just received, followed by the previous ones; from the empty list a
  sequence of trades leaves the newest 100 of them, the newest first.
\<close>

theorem liveTrades_newest_first:
  "length (handleLiveTrade trade prev) \<le> 100 \<and>
   handleLiveTrade trade prev = trade # take 99 prev \<and>
   liveTrades_after ts [] = take 100 (rev ts)"
  using liveTrades_after_take[of "[]" ts]
  by (simp add: handleLiveTrade_Cons)

section \<open>Properties of the form\<close>

text \<open>What \<open>trim\<close> returns has no white space at either end, so trimming it again changes nothing.\<close>

lemma trimEnd_last: "trimEnd s \<noteq> [] \<Longrightarrow> \<not> isWhiteSpace (last (trimEnd s))"
proof -
  assume ne: "trimEnd s \<noteq> []"
  then have d: "dropWhile isWhiteSpace (rev s) \<noteq> []" by (simp add: trimEnd_def)
  then have "\<not> isWhiteSpace (hd (dropWhile isWhiteSpace (rev s)))" by (rule hd_dropWhile)
  with d show ?thesis by (simp add: trimEnd_def last_rev)
qed

lemma trimStart_hd: "trimStart s \<noteq> [] \<Longrightarrow> \<not> isWhiteSpace (hd (trimStart s))"
  unfolding trimStart_def by (rule hd_dropWhile)

lemma trimStart_last: "trimStart s \<noteq> [] \<Longrightarrow> last (trimStart s) = last s"
proof -
  assume ne: "trimStart s \<noteq> []"
  have "s = takeWhile isWhiteSpace s @ trimStart s" by (simp add: trimStart_def)
  then have "last s = last (takeWhile isWhiteSpace s @ trimStart s)" by simp
  also have "\<dots> = last (trimStart s)" using ne by simp
  finally show ?thesis by simp
qed

lemma trim_ends:
  assumes "trim s \<noteq> []"
  shows "\<not> isWhiteSpace (hd (trim s))" and "\<not> isWhiteSpace (last (trim s))"
proof -
  from assms show "\<not> isWhiteSpace (hd (trim s))"
    unfolding trim_def by (rule trimStart_hd)
  from assms have ne: "trimStart (trimEnd s) \<noteq> []" by (simp add: trim_def)
  then have te: "trimEnd s \<noteq> []" by (auto simp: trimStart_def)
  from trimStart_last[OF ne] trimEnd_last[OF te]
  show "\<not> isWhiteSpace (last (trim s))" by (simp add: trim_def)
qed

lemma trimStart_id: "s \<noteq> [] \<Longrightarrow> \<not> isWhiteSpace (hd s) \<Longrightarrow> trimStart s = s"
  by (cases s) (simp_all add: trimStart_def)

lemma trimEnd_id: "s \<noteq> [] \<Longrightarrow> \<not> isWhiteSpace (last s) \<Longrightarrow> trimEnd s = s"
proof -
  assume "s \<noteq> []" "\<not> isWhiteSpace (last s)"
  then have "rev s \<noteq> []" "\<not> isWhiteSpace (hd (rev s))" by (simp_all add: hd_rev)
  then have "dropWhile isWhiteSpace (rev s) = rev s" by (cases "rev s") simp_all
  then show ?thesis by (simp add: trimEnd_def)
qed

lemma trim_idem: "trim (trim s) = trim s"
proof (cases "trim s = []")
  case True
  have "trim [] = []" by (simp add: trim_def trimStart_def trimEnd_def)
  with True show ?thesis by simp
next
  case False
  from trim_ends[OF False] False show ?thesis
    by (simp add: trim_def[of "trim s"] trimEnd_id trimStart_id)
qed

lemma symbolList_elem:
  "s \<in> set (symbolList text) \<Longrightarrow> s \<noteq> [] \<and> trim s = s"
  by (auto simp: symbolList_def trim_idem)

lemma symbolList_empty:
  "symbolList text = [] \<longleftrightarrow> list_all (\<lambda>p. trim p = []) (js_split 0x2C text)"
  by (auto simp: symbolList_def filter_empty_conv list_all_iff)

text \<open>
  C5. A request that the submit handler sends has a non-empty list of symbols, each of
  them non-empty and trimmed (trimming it again gives the same string), a schema that
  is one of trades, ohlcv-1s and ohlcv-1m, and as \<open>start_rfc3339\<close> and
  \<open>end_rfc3339\<close> the ISO strings of the two time fields. When every piece of the
  symbols input between commas trims to the empty string, the handler returns without
  sending a request.
\<close>

theorem submitted_request_well_formed:
  "(handleFetchHistorical toISOString f = Inr (Some req) \<longrightarrow>
      symbols req \<noteq> [] \<and>
      (\<forall>s \<in> set (symbols req). s \<noteq> [] \<and> trim s = s) \<and>
      (schema req = Trades \<or> schema req = Ohlcv1s \<or> schema req = Ohlcv1m) \<and>
      toISOString (f_startTime f) = Some (start_rfc3339 req) \<and>
      toISOString (f_endTime f) = Some (end_rfc3339 req)) \<and>
   (list_all (\<lambda>p. trim p = []) (js_split 0x2C (f_symbols f)) \<longrightarrow>
      handleFetchHistorical toISOString f = Inr None)"
proof (intro conjI impI)
  assume sent: "handleFetchHistorical toISOString f = Inr (Some req)"
  then have ne: "symbolList (f_symbols f) \<noteq> []"
    by (auto simp: handleFetchHistorical_def split: if_splits)
  with sent have req: "symbols req = symbolList (f_symbols f)"
    and st: "toISOString (f_startTime f) = Some (start_rfc3339 req)"
    and en: "toISOString (f_endTime f) = Some (end_rfc3339 req)"
    by (auto simp: handleFetchHistorical_def split: option.splits)
  from ne req show "symbols req \<noteq> []" by simp
  from req show "\<forall>s \<in> set (symbols req). s \<noteq> [] \<and> trim s = s"
    by (simp add: symbolList_elem)
  show "schema req = Trades \<or> schema req = Ohlcv1s \<or> schema req = Ohlcv1m"
    by (cases "schema req") simp_all
  from st show "toISOString (f_startTime f) = Some (start_rfc3339 req)" .
  from en show "toISOString (f_endTime f) = Some (end_rfc3339 req)" .
next
  assume "list_all (\<lambda>p. trim p = []) (js_split 0x2C (f_symbols f))"
  then have "symbolList (f_symbols f) = []" by (simp add: symbolList_empty)
  then show "handleFetchHistorical toISOString f = Inr None"
    by (simp add: handleFetchHistorical_def)
qed

theorem submitted_request_well_formed_witness:
  "handleFetchHistorical utc_toISOString
     (onChange (EditSymbols (js '' ES.FUT , CL.FUT ,, ''))
        (initial_form (js ''2024-01-01T00:00'') (js ''2024-01-01T01:00'')))
   = Inr (Some \<lparr>symbols = [js ''ES.FUT'', js ''CL.FUT''], schema = Trades, stype_in = None,
                 start_rfc3339 = js ''2024-01-01T00:00:00.000Z'',
                 end_rfc3339 = js ''2024-01-01T01:00:00.000Z'', limit = Some (Finite 100)\<rparr>) \<and>
   list_all (\<lambda>s. s \<noteq> [] \<and> trim s = s) [js ''ES.FUT'', js ''CL.FUT''] \<and>
   list_all (\<lambda>p. trim p = []) (js_split 0x2C (js '' , '')) \<and>
   handleFetchHistorical utc_toISOString
     (onChange (EditSymbols (js '' , ''))
        (initial_form (js ''2024-01-01T00:00'') (js ''2024-01-01T01:00''))) = Inr None"
proof -
  let ?f = "onChange (EditSymbols (js '' ES.FUT , CL.FUT ,, ''))
        (initial_form (js ''2024-01-01T00:00'') (js ''2024-01-01T01:00''))"
  let ?req = "\<lparr>symbols = [js ''ES.FUT'', js ''CL.FUT''], schema = Trades, stype_in = None,
                 start_rfc3339 = js ''2024-01-01T00:00:00.000Z'',
                 end_rfc3339 = js ''2024-01-01T01:00:00.000Z'', limit = Some (Finite 100)\<rparr>"
  let ?g = "onChange (EditSymbols (js '' , ''))
        (initial_form (js ''2024-01-01T00:00'') (js ''2024-01-01T01:00''))"
  have sent: "handleFetchHistorical utc_toISOString ?f = Inr (Some ?req)"
    by (simp add: handleFetchHistorical_def symbolList_def initial_form_def
        utc_toISOString_def trim_def trimStart_def trimEnd_def isWhiteSpace_def js_def)
  have blank: "list_all (\<lambda>p. trim p = []) (js_split 0x2C (f_symbols ?g))"
    by (simp add: initial_form_def
        trim_def trimStart_def trimEnd_def isWhiteSpace_def js_def)
  from submitted_request_well_formed[of utc_toISOString ?f ?req] sent
  have "\<forall>s \<in> set (symbols ?req). s \<noteq> [] \<and> trim s = s" by blast
  then have a: "list_all (\<lambda>s. s \<noteq> [] \<and> trim s = s) [js ''ES.FUT'', js ''CL.FUT'']"
    by (simp add: list_all_iff)
  from submitted_request_well_formed[of utc_toISOString ?g] blank
  have b: "handleFetchHistorical utc_toISOString ?g = Inr None" by blast
  from blank have c: "list_all (\<lambda>p. trim p = []) (js_split 0x2C (js '' , ''))"
    by simp
  from sent a b c show ?thesis by blast
qed














lemma digits_value_zeros: "digits_value 10 acc (replicate n 0x30) = acc * 10 ^ n"
  by (induction n arbitrary: acc) (simp_all add: digit_value_def)

lemma to_Number_large: "2 ^ 1024 \<le> n \<Longrightarrow> to_Number n = PositiveInfinity"
proof -
  assume big: "2 ^ 1024 \<le> n"
  have "(0::int) < 2 ^ 1024" by simp
  with big have "\<not> n < 0" by linarith
  moreover from round_double_large[OF big] have "2 ^ 1024 \<le> \<bar>round_double n\<bar>" by linarith
  ultimately show ?thesis by (simp add: to_Number_def)
qed

lemma parseInt_310_digits: "parseInt (0x31 # replicate 309 0x30) = PositiveInfinity"
proof -
  have v: "digits_value 10 0 (0x31 # replicate 309 0x30) = 10 ^ 309"
    by (simp add: digit_value_def digits_value_zeros)
  have "(2::int) ^ 1024 \<le> 10 ^ 309" by simp
  then have inf: "to_Number (10 ^ 309) = PositiveInfinity" by (rule to_Number_large)
  have "parseInt (0x31 # replicate 309 0x30) = integer_of_digits 1 10 (0x31 # replicate 309 0x30)"
    by (simp add: parseInt_def Let_def trimStart_def isWhiteSpace_def split: list.split)
  also have "\<dots> = to_Number (int (digits_value 10 0 (0x31 # replicate 309 0x30)))"
    by (simp add: integer_of_digits_def digit_value_def)
  also have "\<dots> = to_Number (10 ^ 309)" by (simp only: v of_nat_power of_nat_numeral)
  also note inf
  finally show ?thesis .
qed

lemma infinite_limit_not_submitted:
  "f_limit (limit_onChange (0x31 # replicate 309 0x30) f) = PositiveInfinity \<and>
   submit toISOString (limit_onChange (0x31 # replicate 309 0x30) f) = Inr None"
  by (simp add: limit_onChange_def Let_def parseInt_310_digits submit_def limit_in_range_def)

lemma parseInt_above_2_53: "parseInt (js ''9007199254740993'') = Finite 9007199254740992"
  by (simp add: parseInt_def integer_of_digits_def Let_def trimStart_def isWhiteSpace_def
        digit_value_def js_def to_Number_def round_double_tie)

section \<open>Properties of fetchHistorical\<close>

lemma fetch_throws_iff:
  "body response = Some b \<Longrightarrow>
   isl (fetchHistorical request (Responded response)) \<longleftrightarrow> \<not> ok response"
  by (auto simp: fetchHistorical_def split: sum.splits)

lemma fetch_ok:
  "ok response \<Longrightarrow> body response = Some b \<Longrightarrow>
   fetchHistorical request (Responded response) = Inr b"
  by (simp add: fetchHistorical_def)

lemma fetch_error_string:
  "\<not> ok response \<Longrightarrow> body response = Some (JObject members) \<Longrightarrow>
   map_of (rev members) (js ''error'') = Some (JString m) \<Longrightarrow> m \<noteq> [] \<Longrightarrow>
   fetchHistorical request (Responded response) = Inl (Error (JString m))"
  by (simp add: fetchHistorical_def logical_or_def)

lemma fetch_error_default:
  "\<not> ok response \<Longrightarrow> body response = Some (JObject members) \<Longrightarrow>
   map_of (rev members) (js ''error'') = None \<or>
   map_of (rev members) (js ''error'') = Some (JString []) \<Longrightarrow>
   fetchHistorical request (Responded response) = Inl (Error (JString default_message))"
  by (auto simp add: fetchHistorical_def logical_or_def)

text \<open>
  C2, as stated, fails: on a non-2xx response whose body is \<open>{"error": ""}\<close> the
  message thrown is the default one, not the (empty) \<open>error\<close> string of the body; and
  on a 2xx response whose body is not JSON the function throws.
\<close>

theorem fetchHistorical_default_on_empty:
  "fetchHistorical
     \<lparr>symbols = [js ''ES.FUT''], schema = Trades, stype_in = None,
      start_rfc3339 = js ''2024-01-01T00:00:00.000Z'',
      end_rfc3339 = js ''2024-01-01T01:00:00.000Z'', limit = Some (Finite 100)\<rparr>
     (Responded \<lparr>ok = False, body = Some (JObject [(js ''error'', JString [])])\<rparr>)
   = Inl (Error (JString (js ''Failed to fetch historical data''))) \<and>
   fetchHistorical
     \<lparr>symbols = [js ''ES.FUT''], schema = Trades, stype_in = None,
      start_rfc3339 = js ''2024-01-01T00:00:00.000Z'',
      end_rfc3339 = js ''2024-01-01T01:00:00.000Z'', limit = Some (Finite 100)\<rparr>
     (Responded \<lparr>ok = True, body = None\<rparr>)
   = Inl SyntaxError"
  by (simp add: fetchHistorical_def logical_or_def default_message_def)

text \<open>
  C2, amended. For a response whose body is JSON, \<open>fetchHistorical\<close> throws exactly
  when the response is not 2xx. On a 2xx response it returns the parsed body. On a
  non-2xx response whose body is an object, it throws an \<open>Error\<close> whose message is the
  \<open>error\<close> member when that is a non-empty string, and the default message when the
  member is absent or the empty string.
\<close>

theorem fetchHistorical_outcome:
  "body response = Some b \<longrightarrow>
     (isl (fetchHistorical request (Responded response)) \<longleftrightarrow> \<not> ok response) \<and>
     (ok response \<longrightarrow> fetchHistorical request (Responded response) = Inr b) \<and>
     (\<not> ok response \<and> b = JObject members \<and>
        map_of (rev members) (js ''error'') = Some (JString m) \<and> m \<noteq> [] \<longrightarrow>
          fetchHistorical request (Responded response) = Inl (Error (JString m))) \<and>
     (\<not> ok response \<and> b = JObject members \<and>
        (map_of (rev members) (js ''error'') = None \<or>
         map_of (rev members) (js ''error'') = Some (JString [])) \<longrightarrow>
          fetchHistorical request (Responded response) =
            Inl (Error (JString default_message)))"
  using fetch_throws_iff[of response b request] fetch_ok[of response b request]
    fetch_error_string[of response members m request]
    fetch_error_default[of response members request]
  by blast

theorem fetchHistorical_outcome_witness:
  "fetchHistorical
     \<lparr>symbols = [js ''ES.FUT''], schema = Trades, stype_in = None,
      start_rfc3339 = js ''2024-01-01T00:00:00.000Z'',
      end_rfc3339 = js ''2024-01-01T00:00:00.000Z'', limit = Some (Finite 100)\<rparr>
     (Responded \<lparr>ok = False,
        body = Some (JObject [(js ''error'', JString (js ''start must be before end''))])\<rparr>)
   = Inl (Error (JString (js ''start must be before end''))) \<and>
   fetchHistorical
     \<lparr>symbols = [js ''ES.FUT''], schema = Trades, stype_in = None,
      start_rfc3339 = js ''2024-01-01T00:00:00.000Z'',
      end_rfc3339 = js ''2024-01-01T00:00:00.000Z'', limit = Some (Finite 100)\<rparr>
     (Responded \<lparr>ok = False, body = Some (JObject [])\<rparr>)
   = Inl (Error (JString default_message)) \<and>
   fetchHistorical
     \<lparr>symbols = [js ''ES.FUT''], schema = Trades, stype_in = None,
      start_rfc3339 = js ''2024-01-01T00:00:00.000Z'',
      end_rfc3339 = js ''2024-01-01T01:00:00.000Z'', limit = Some (Finite 100)\<rparr>
     (Responded \<lparr>ok = True,
        body = Some (JObject [(js ''schema'', JString (js ''trades'')), (js ''data'', JArray [])])\<rparr>)
   = Inr (JObject [(js ''schema'', JString (js ''trades'')), (js ''data'', JArray [])])"
proof -
  let ?bad = "\<lparr>ok = False,
        body = Some (JObject [(js ''error'', JString (js ''start must be before end''))])\<rparr>"
  let ?bare = "\<lparr>ok = False, body = Some (JObject [])\<rparr>"
  let ?good = "\<lparr>ok = True,
        body = Some (JObject [(js ''schema'', JString (js ''trades'')), (js ''data'', JArray [])])\<rparr>"
  have m: "map_of (rev [(js ''error'', JString (js ''start must be before end''))]) (js ''error'')
             = Some (JString (js ''start must be before end''))"
    by simp
  have ne: "js ''start must be before end'' \<noteq> []" by (simp add: js_def)
  show ?thesis
    using fetchHistorical_outcome[where response = ?bad and members = "[(js ''error'', JString (js ''start must be before end''))]"
            and m = "js ''start must be before end''"] m ne
          fetchHistorical_outcome[where response = ?bare and members = "[]"]
          fetchHistorical_outcome[where response = ?good]
    by simp
qed

section \<open>Properties of the price formatting\<close>

lemma digits_small: "n < 10 \<Longrightarrow> digits n = [digit n]"
  by (simp add: digits.simps)

lemma digits_step: "10 \<le> n \<Longrightarrow> digits n = digits (n div 10) @ [digit (n mod 10)]"
  by (subst digits.simps) simp

lemma digits_two: "10 \<le> n \<Longrightarrow> n < 100 \<Longrightarrow> digits n = [digit (n div 10), digit (n mod 10)]"
  by (simp add: digits_step digits_small)

lemma digits_last_two:
  assumes "100 \<le> n"
  shows "digits n = digits (n div 100) @ [digit (n div 10 mod 10), digit (n mod 10)]"
proof -
  from assms have a: "10 \<le> n" and b: "10 \<le> n div 10" by simp_all
  have "n div 10 div 10 = n div 100" by (simp add: div_mult2_eq[symmetric])
  with digits_step[OF a] digits_step[OF b] show ?thesis by simp
qed

lemma digits_nonempty: "digits n \<noteq> []"
  by (subst digits.simps) simp

lemma js_zero: "js ''0'' = [digit 0]"
  by (simp add: js_def digit_def)

lemma zero_unit: "(0x30 :: 16 word) = digit 0"
  by (simp add: digit_def)

text \<open>The digits of \<open>n\<close>, padded to three and split before the last two.\<close>

lemma pad_split:
  fixes n :: nat
  assumes m: "m = (if n = 0 then js ''0'' else digits n)"
    and m1: "m1 = (if length m \<le> 2 then replicate (2 + 1 - length m) 0x30 @ m else m)"
  shows "take (length m1 - 2) m1 = digits (n div 100)"
    and "drop (length m1 - 2) m1 = [digit (n div 10 mod 10), digit (n mod 10)]"
proof -
  have "take (length m1 - 2) m1 = digits (n div 100) \<and>
        drop (length m1 - 2) m1 = [digit (n div 10 mod 10), digit (n mod 10)]"
  proof -
    consider "n = 0" | "0 < n" "n < 10" | "10 \<le> n" "n < 100" | "100 \<le> n" by linarith
    then show ?thesis
    proof cases
      case 1
      then show ?thesis
        by (simp add: m m1 js_zero digits_small zero_unit numeral_2_eq_2)
    next
      case 2
      then show ?thesis
        by (simp add: m m1 digits_small zero_unit numeral_2_eq_2)
    next
      case 3
      then have "n div 100 = 0" by simp
      with 3 show ?thesis
        by (simp add: m m1 digits_two digits_small zero_unit)
    next
      case 4
      then have n0: "n \<noteq> 0" by simp
      have len: "2 < length (digits n)"
        using digits_nonempty[of "n div 100"] by (simp add: digits_last_two[OF 4] Suc_lessI)
      with n0 have "m1 = digits (n div 100) @ [digit (n div 10 mod 10), digit (n mod 10)]"
        by (simp add: m m1 digits_last_two[OF 4])
      then show ?thesis by simp
    qed
  qed
  then show "take (length m1 - 2) m1 = digits (n div 100)"
    and "drop (length m1 - 2) m1 = [digit (n div 10 mod 10), digit (n mod 10)]"
    by simp_all
qed

text \<open>
  \<open>toFixed(2)\<close> below \<open>10^21\<close> in closed form: the sign, the digits of the whole
  part of \<open>n / 100\<close>, a point and the two digits of the hundredths, for the integer
  \<open>n\<close> nearest to a hundred times the magnitude.
\<close>

lemma toFixed_2:
  assumes "\<bar>x\<bar> < 10 ^ 21"
  shows "toFixed toString x 2 =
           (if x < 0 then js ''-'' else []) @
           digits (nat \<lfloor>\<bar>x\<bar> * 100 + 1 / 2\<rfloor> div 100) @ js ''.'' @
           [digit (nat \<lfloor>\<bar>x\<bar> * 100 + 1 / 2\<rfloor> div 10 mod 10),
            digit (nat \<lfloor>\<bar>x\<bar> * 100 + 1 / 2\<rfloor> mod 10)]"
proof -
  define n where "n = nat \<lfloor>\<bar>x\<bar> * 10 ^ 2 + 1 / 2\<rfloor>"
  define m where "m = (if n = 0 then js ''0'' else digits n)"
  define m1 where "m1 = (if length m \<le> 2 then replicate (2 + 1 - length m) 0x30 @ m else m)"
  have ax: "(if x < 0 then - x else x) = \<bar>x\<bar>" by simp
  from assms have small: "\<not> 10 ^ 21 \<le> \<bar>x\<bar>" by simp
  have "toFixed toString x 2 =
          (if x < 0 then js ''-'' else []) @
          take (length m1 - 2) m1 @ js ''.'' @ drop (length m1 - 2) m1"
    unfolding toFixed_def Let_def ax m1_def m_def n_def
    using small by simp
  also have "\<dots> = (if x < 0 then js ''-'' else []) @
          digits (n div 100) @ js ''.'' @ [digit (n div 10 mod 10), digit (n mod 10)]"
    by (simp only: pad_split[OF m_def m1_def])
  also have "n = nat \<lfloor>\<bar>x\<bar> * 100 + 1 / 2\<rfloor>" by (simp add: n_def)
  finally show ?thesis .
qed

lemma nearest_hundredth:
  fixes q :: real
  shows "\<bar>real (nat \<lfloor>\<bar>q\<bar> * 100 + 1 / 2\<rfloor>) / 100 - \<bar>q\<bar>\<bar> \<le> 1 / 200"
proof -
  let ?y = "\<bar>q\<bar> * 100 + 1 / 2"
  have nonneg: "0 \<le> \<lfloor>?y\<rfloor>" by simp
  then have r: "real (nat \<lfloor>?y\<rfloor>) = of_int \<lfloor>?y\<rfloor>" by simp
  have "of_int \<lfloor>?y\<rfloor> \<le> ?y" "?y < of_int \<lfloor>?y\<rfloor> + 1" by linarith+
  then show ?thesis unfolding r by linarith
qed

text \<open>
  C7. \<open>formatPriceNumber(p)\<close> is the quotient of \<open>p\<close> by \<open>1e9\<close> (as the runtime
  rounds it), so it takes \<open>x * 1e9\<close> back to \<open>x\<close>; \<open>formatPrice(p)\<close> is
  \<open>toFixed(2)\<close> of the same quotient: for a quotient below \<open>10^21\<close> in magnitude, the
  decimal with two places that is nearest to it (within half a hundredth). The price
  cell of the trade tape is \<open>formatPrice\<close> of \<open>price_i64\<close>, and the open, high, low
  and close of a chart element are \<open>formatPriceNumber\<close> of the record's fields: no
  other scale is used.
\<close>

theorem price_scale:
  "formatPriceNumber rnd p = rnd (p / 1000000000) \<and>
   formatPriceNumber rnd (x * 1000000000) = rnd x \<and>
   formatPrice rnd toString p = toFixed toString (formatPriceNumber rnd p) 2 \<and>
   (let q = formatPriceNumber rnd p; n = nat \<lfloor>\<bar>q\<bar> * 100 + 1 / 2\<rfloor>
    in \<bar>real n / 100 - \<bar>q\<bar>\<bar> \<le> 1 / 200 \<and>
       (\<bar>q\<bar> < 10 ^ 21 \<longrightarrow>
          formatPrice rnd toString p =
            (if q < 0 then js ''-'' else []) @ digits (n div 100) @ js ''.'' @
            [digit (n div 10 mod 10), digit (n mod 10)])) \<and>
   TradeRow_price rnd toString trade = formatPrice rnd toString (price_i64 trade) \<and>
   bar_open (to_candle rnd bar) = formatPriceNumber rnd (open_i64 bar) \<and>
   bar_high (to_candle rnd bar) = formatPriceNumber rnd (high_i64 bar) \<and>
   bar_low (to_candle rnd bar) = formatPriceNumber rnd (low_i64 bar) \<and>
   bar_close (to_candle rnd bar) = formatPriceNumber rnd (close_i64 bar)"
proof -
  have q: "formatPriceNumber rnd p = rnd (p / 1000000000)"
    by (simp add: formatPriceNumber_def PRICE_SCALE_def)
  have inv: "formatPriceNumber rnd (x * 1000000000) = rnd x"
    by (simp add: formatPriceNumber_def PRICE_SCALE_def)
  have fp: "formatPrice rnd toString p = toFixed toString (formatPriceNumber rnd p) 2"
    by (simp add: formatPrice_def formatPriceNumber_def)
  have shape: "\<bar>formatPriceNumber rnd p\<bar> < 10 ^ 21 \<longrightarrow>
          formatPrice rnd toString p =
            (if formatPriceNumber rnd p < 0 then js ''-'' else []) @
            digits (nat \<lfloor>\<bar>formatPriceNumber rnd p\<bar> * 100 + 1 / 2\<rfloor> div 100) @ js ''.'' @
            [digit (nat \<lfloor>\<bar>formatPriceNumber rnd p\<bar> * 100 + 1 / 2\<rfloor> div 10 mod 10),
             digit (nat \<lfloor>\<bar>formatPriceNumber rnd p\<bar> * 100 + 1 / 2\<rfloor> mod 10)]"
    using toFixed_2[of "formatPriceNumber rnd p" toString] by (simp only: fp) blast
  have sites: "TradeRow_price rnd toString trade = formatPrice rnd toString (price_i64 trade)"
    "bar_open (to_candle rnd bar) = formatPriceNumber rnd (open_i64 bar)"
    "bar_high (to_candle rnd bar) = formatPriceNumber rnd (high_i64 bar)"
    "bar_low (to_candle rnd bar) = formatPriceNumber rnd (low_i64 bar)"
    "bar_close (to_candle rnd bar) = formatPriceNumber rnd (close_i64 bar)"
    by (simp_all add: TradeRow_price_def to_candle_def)
  from q inv fp shape sites nearest_hundredth[of "formatPriceNumber rnd p"]
  show ?thesis unfolding Let_def by blast
qed

theorem price_scale_witness:
  "\<bar>formatPriceNumber (\<lambda>x. x) 4500250000000\<bar> < 10 ^ 21 \<and>
   formatPrice (\<lambda>x. x) (\<lambda>x. []) 4500250000000 = js ''4500.25'' \<and>
   \<bar>formatPriceNumber (\<lambda>x. x) (- 2250000000)\<bar> < 10 ^ 21 \<and>
   formatPrice (\<lambda>x. x) (\<lambda>x. []) (- 2250000000) = js ''-2.25''"
proof -
  have a: "formatPriceNumber (\<lambda>x. x) 4500250000000 = 18001 / 4"
    by (simp add: formatPriceNumber_def PRICE_SCALE_def)
  have b: "formatPriceNumber (\<lambda>x. x) (- 2250000000) = - (9 / 4)"
    by (simp add: formatPriceNumber_def PRICE_SCALE_def)
  have n1: "nat \<lfloor>\<bar>18001 / 4 :: real\<bar> * 100 + 1 / 2\<rfloor> = 450025" by simp
  have n2: "nat \<lfloor>\<bar>- (9 / 4) :: real\<bar> * 100 + 1 / 2\<rfloor> = 225" by simp
  have d1: "digits 4500 = js ''4500''"
    by (simp add: digits_step digits_small digit_def js_def)
  have d2: "digits 2 = js ''2''"
    using digits_small[of 2] by (simp add: digit_def js_def)
  have s1: "\<bar>formatPriceNumber (\<lambda>x. x) 4500250000000\<bar> < 10 ^ 21" by (simp add: a)
  have s2: "\<bar>formatPriceNumber (\<lambda>x. x) (- 2250000000)\<bar> < 10 ^ 21" by (simp add: b)
  from price_scale[of "\<lambda>x. x" 4500250000000 _ "\<lambda>x. []", unfolded Let_def] s1
  have "formatPrice (\<lambda>x. x) (\<lambda>x. []) 4500250000000 =
          (if formatPriceNumber (\<lambda>x. x) 4500250000000 < 0 then js ''-'' else []) @
          digits (nat \<lfloor>\<bar>formatPriceNumber (\<lambda>x. x) 4500250000000\<bar> * 100 + 1 / 2\<rfloor> div 100) @
          js ''.'' @
          [digit (nat \<lfloor>\<bar>formatPriceNumber (\<lambda>x. x) 4500250000000\<bar> * 100 + 1 / 2\<rfloor> div 10 mod 10),
           digit (nat \<lfloor>\<bar>formatPriceNumber (\<lambda>x. x) 4500250000000\<bar> * 100 + 1 / 2\<rfloor> mod 10)]"
    by blast
  then have r1: "formatPrice (\<lambda>x. x) (\<lambda>x. []) 4500250000000 = js ''4500.25''"
    unfolding a n1 by (simp add: d1) (simp add: digit_def js_def)
  from price_scale[of "\<lambda>x. x" "- 2250000000" _ "\<lambda>x. []", unfolded Let_def] s2
  have "formatPrice (\<lambda>x. x) (\<lambda>x. []) (- 2250000000) =
          (if formatPriceNumber (\<lambda>x. x) (- 2250000000) < 0 then js ''-'' else []) @
          digits (nat \<lfloor>\<bar>formatPriceNumber (\<lambda>x. x) (- 2250000000)\<bar> * 100 + 1 / 2\<rfloor> div 100) @
          js ''.'' @
          [digit (nat \<lfloor>\<bar>formatPriceNumber (\<lambda>x. x) (- 2250000000)\<bar> * 100 + 1 / 2\<rfloor> div 10 mod 10),
           digit (nat \<lfloor>\<bar>formatPriceNumber (\<lambda>x. x) (- 2250000000)\<bar> * 100 + 1 / 2\<rfloor> mod 10)]"
    by blast
  then have r2: "formatPrice (\<lambda>x. x) (\<lambda>x. []) (- 2250000000) = js ''-2.25''"
    unfolding b n2 by (simp add: d2) (simp add: digit_def js_def)
  from s1 r1 s2 r2 show ?thesis by blast
qed

text \<open>
  With the rounding of the doubles the quotient of 1005000000 by \<open>1e9\<close> is the double
  nearest to 1.005, which is \<open>1131529406376837 / 2^50\<close> and lies below it; the price
  prints as 1.00.
\<close>

lemma formatPrice_rounded_quotient:
  "formatPrice (\<lambda>x. if x = 201 / 200 then 1131529406376837 / 1125899906842624 else x)
     (\<lambda>x. []) 1005000000 = js ''1.00''"
proof -
  have n: "nat \<lfloor>\<bar>1131529406376837 / 1125899906842624 :: real\<bar> * 100 + 1 / 2\<rfloor> = 100" by simp
  have d: "digits (Suc 0) = js ''1''"
    using digits_small[of "Suc 0"] by (simp add: digit_def js_def)
  have "toFixed (\<lambda>x. []) (1131529406376837 / 1125899906842624) 2 = js ''1.00''"
    by (subst toFixed_2) (simp_all add: n d, simp add: digit_def js_def)
  then show ?thesis
    by (simp add: formatPrice_def PRICE_SCALE_def)
qed

section \<open>Properties of the chart\<close>

text \<open>
  The sort returns a permutation, whatever the comparison function. With the comparison
  \<open>a.time - b.time\<close> on times that are results of the division it is the stable sort
  by \<open>time\<close>.
\<close>

lemma array_sort_Cons: "array_sort cmp (x # xs) = insert_by cmp x (array_sort cmp xs)"
  by (simp add: array_sort_def)

lemma mset_insert_by: "mset (insert_by cmp x ys) = add_mset x (mset ys)"
  by (induction ys) simp_all

lemma mset_array_sort: "mset (array_sort cmp xs) = mset xs"
proof (induction xs)
  case Nil
  then show ?case by (simp add: array_sort_def)
next
  case (Cons x xs)
  then show ?case by (simp add: array_sort_Cons mset_insert_by)
qed

lemma insert_by_time:
  assumes "sign_exact rnd"
    and "\<forall>c \<in> set (x # ys). \<exists>t. bar_time c = rnd t"
  shows "insert_by (by_time rnd) x ys = insort_key bar_time x ys"
  using assms(2)
proof (induction ys)
  case Nil
  then show ?case by simp
next
  case (Cons y ys)
  from Cons.prems obtain t u where "bar_time x = rnd t" "bar_time y = rnd u" by auto
  with assms(1) have "(by_time rnd x y \<le> 0) = (bar_time x \<le> bar_time y)"
    by (simp add: by_time_def sign_exact_def)
  with Cons show ?case by simp
qed

lemma to_candle_time: "\<exists>t. bar_time (to_candle rnd bar) = rnd t"
  by (auto simp: to_candle_def)

lemma chartData_sort_key:
  assumes "sign_exact rnd"
  shows "chartData rnd data = sort_key bar_time (map (to_candle rnd) data)"
proof -
  have "array_sort (by_time rnd) (map (to_candle rnd) data)
          = sort_key bar_time (map (to_candle rnd) data)"
  proof (induction data)
    case Nil
    then show ?case by (simp add: array_sort_def)
  next
    case (Cons bar data)
    have "\<forall>c \<in> set (to_candle rnd bar # sort_key bar_time (map (to_candle rnd) data)).
            \<exists>t. bar_time c = rnd t"
      using to_candle_time[of rnd] by auto
    from insert_by_time[OF assms this] Cons.IH show ?case
      by (simp add: array_sort_Cons)
  qed
  then show ?thesis by (simp add: chartData_def)
qed

lemma to_candle_fields:
  "to_candle rnd =
     (\<lambda>bar. \<lparr>bar_time = rnd (ts_event_unix_ns bar / 1000000000),
             bar_open = rnd (open_i64 bar / 1000000000),
             bar_high = rnd (high_i64 bar / 1000000000),
             bar_low = rnd (low_i64 bar / 1000000000),
             bar_close = rnd (close_i64 bar / 1000000000)\<rparr>)"
  by (rule ext) (simp add: to_candle_def formatPriceNumber_def PRICE_SCALE_def)

text \<open>
  C8. The series data given to \<open>setData\<close> is sorted by \<open>time\<close> in ascending order,
  and it holds, for each record of the input and as often as the record occurs, the
  element whose \<open>time\<close> is \<open>ts_event_unix_ns / 1e9\<close> and whose open, high, low and
  close are the record's fixed-point fields divided by \<open>1e9\<close>. With a mounted
  container and non-empty data \<open>setData\<close> is called.
\<close>

theorem chart_series_sorted:
  "(HistoricalChart rnd container data = Some series \<longrightarrow>
      (sign_exact rnd \<longrightarrow> sorted (map bar_time series)) \<and>
      mset series =
        mset (map (\<lambda>bar. \<lparr>bar_time = rnd (ts_event_unix_ns bar / 1000000000),
                            bar_open = rnd (open_i64 bar / 1000000000),
                            bar_high = rnd (high_i64 bar / 1000000000),
                            bar_low = rnd (low_i64 bar / 1000000000),
                            bar_close = rnd (close_i64 bar / 1000000000)\<rparr>) data)) \<and>
   (container \<and> data \<noteq> [] \<longrightarrow> (\<exists>series. HistoricalChart rnd container data = Some series))"
proof (intro conjI impI)
  assume "HistoricalChart rnd container data = Some series"
  then have s: "series = chartData rnd data"
    by (auto simp: HistoricalChart_def split: if_splits)
  {
    assume "sign_exact rnd"
    then show "sorted (map bar_time series)"
      unfolding s by (simp add: chartData_sort_key)
  }
  have "mset series = mset (map (to_candle rnd) data)"
    unfolding s by (simp add: chartData_def mset_array_sort)
  then show "mset series =
        mset (map (\<lambda>bar. \<lparr>bar_time = rnd (ts_event_unix_ns bar / 1000000000),
                            bar_open = rnd (open_i64 bar / 1000000000),
                            bar_high = rnd (high_i64 bar / 1000000000),
                            bar_low = rnd (low_i64 bar / 1000000000),
                            bar_close = rnd (close_i64 bar / 1000000000)\<rparr>) data)"
    by (simp only: to_candle_fields)
next
  assume "container \<and> data \<noteq> []"
  then show "\<exists>series. HistoricalChart rnd container data = Some series"
    by (simp add: HistoricalChart_def)
qed

theorem chart_series_sorted_witness:
  "sign_exact (\<lambda>x. x) \<and>
   HistoricalChart (\<lambda>x. x) True
     [\<lparr>ts_event_unix_ns = 3000000000, symbol = js ''ES.FUT'', open_i64 = 4500000000000,
       high_i64 = 4501000000000, low_i64 = 4499000000000, close_i64 = 4500000000000,
       volume_u64 = 10\<rparr>,
      \<lparr>ts_event_unix_ns = 1000000000, symbol = js ''ES.FUT'', open_i64 = 4498000000000,
       high_i64 = 4500000000000, low_i64 = 4497000000000, close_i64 = 4500000000000,
       volume_u64 = 7\<rparr>]
   = Some [\<lparr>bar_time = 1, bar_open = 4498, bar_high = 4500, bar_low = 4497, bar_close = 4500\<rparr>,
           \<lparr>bar_time = 3, bar_open = 4500, bar_high = 4501, bar_low = 4499, bar_close = 4500\<rparr>] \<and>
   sorted (map bar_time
          [\<lparr>bar_time = 1, bar_open = 4498, bar_high = 4500, bar_low = 4497, bar_close = 4500\<rparr>,
           \<lparr>bar_time = 3, bar_open = 4500, bar_high = 4501, bar_low = 4499, bar_close = 4500\<rparr>])"
proof -
  let ?data = "[\<lparr>ts_event_unix_ns = 3000000000, symbol = js ''ES.FUT'', open_i64 = 4500000000000,
       high_i64 = 4501000000000, low_i64 = 4499000000000, close_i64 = 4500000000000,
       volume_u64 = 10\<rparr>,
      \<lparr>ts_event_unix_ns = 1000000000, symbol = js ''ES.FUT'', open_i64 = 4498000000000,
       high_i64 = 4500000000000, low_i64 = 4497000000000, close_i64 = 4500000000000,
       volume_u64 = 7\<rparr>]"
  let ?series = "[\<lparr>bar_time = 1, bar_open = 4498, bar_high = 4500, bar_low = 4497, bar_close = 4500\<rparr>,
           \<lparr>bar_time = 3, bar_open = 4500, bar_high = 4501, bar_low = 4499, bar_close = 4500\<rparr>]"
  have ex: "sign_exact (\<lambda>x. x)" by (simp add: sign_exact_def)
  have run: "HistoricalChart (\<lambda>x. x) True ?data = Some ?series"
    by (simp add: HistoricalChart_def chartData_def array_sort_def by_time_def to_candle_def
        formatPriceNumber_def PRICE_SCALE_def)
  from chart_series_sorted[of "\<lambda>x. x" True ?data ?series] run ex
  have "sorted (map bar_time ?series)" by blast
  with run ex show ?thesis by blast
qed

end
